theory Spec2Isabelle
  imports Main
begin

section \<open>Python text operations used by app.py\<close>

text \<open>
  A Python \<open>str\<close> is a sequence of Unicode code points, here a list of natural numbers;
  \<open>py\<close> gives the code points of an ASCII literal.

  The case mappings of the Unicode database are not part of the repository and are taken
  as a parameter, consulted for code points from 128 on. \<open>str.upper\<close> maps each character
  on its own to its full upper-case mapping, of one to three characters. \<open>str.lower\<close>
  does the same with the lower-case mapping, which for one character (capital sigma) looks
  at the characters around it, so it receives the text and the index. Below 128 both
  are the mappings between a..z and A..Z.
\<close>

type_synonym pystr = "nat list"

definition py :: "string \<Rightarrow> pystr" where
  "py s = map of_char s"

record unicode =
  upper_full :: "nat \<Rightarrow> pystr"
  lower_full :: "pystr \<Rightarrow> nat \<Rightarrow> pystr"

definition ascii_upper :: "nat \<Rightarrow> nat" where
  "ascii_upper c = (if 97 \<le> c \<and> c \<le> 122 then c - 32 else c)"

definition ascii_lower :: "nat \<Rightarrow> nat" where
  "ascii_lower c = (if 65 \<le> c \<and> c \<le> 90 then c + 32 else c)"

definition upper_char :: "'a unicode_scheme \<Rightarrow> nat \<Rightarrow> pystr" where
  "upper_char U c = (if c < 128 then [ascii_upper c] else upper_full U c)"

definition upper :: "'a unicode_scheme \<Rightarrow> pystr \<Rightarrow> pystr" where
  "upper U s = concat (map (upper_char U) s)"

definition lower_at :: "'a unicode_scheme \<Rightarrow> pystr \<Rightarrow> nat \<Rightarrow> pystr" where
  "lower_at U s i = (if s ! i < 128 then [ascii_lower (s ! i)] else lower_full U s i)"

definition lower :: "'a unicode_scheme \<Rightarrow> pystr \<Rightarrow> pystr" where
  "lower U s = concat (map (lower_at U s) [0..<length s])"

text \<open>
  The white space of \<open>str.isspace\<close>, which is what \<open>str.strip\<close>, \<open>str.rstrip\<close> and the
  class \<open>\s\<close> of a regular expression on a \<open>str\<close> use: the code points 9 to 13, 28 to 32,
  U+0085, U+00A0, U+1680, U+2000 to U+200A, U+2028, U+2029, U+202F, U+205F and U+3000.
\<close>

definition whitespace :: "nat list" where
  "whitespace =
     [0x09, 0x0A, 0x0B, 0x0C, 0x0D, 0x1C, 0x1D, 0x1E, 0x1F, 0x20, 0x85, 0xA0,
      0x1680, 0x2000, 0x2001, 0x2002, 0x2003, 0x2004, 0x2005, 0x2006, 0x2007,
      0x2008, 0x2009, 0x200A, 0x2028, 0x2029, 0x202F, 0x205F, 0x3000]"

definition isspace :: "nat \<Rightarrow> bool" where
  "isspace c = (c \<in> set whitespace)"

definition lstrip :: "pystr \<Rightarrow> pystr" where
  "lstrip s = dropWhile isspace s"

definition rstrip :: "pystr \<Rightarrow> pystr" where
  "rstrip s = rev (dropWhile isspace (rev s))"

definition strip :: "pystr \<Rightarrow> pystr" where
  "strip s = rstrip (lstrip s)"

definition startswith :: "pystr \<Rightarrow> pystr \<Rightarrow> bool" where
  "startswith s p = (take (length p) s = p)"

text \<open>\<open>contains sub s\<close> is Python's \<open>sub in s\<close> on strings.\<close>

fun contains :: "pystr \<Rightarrow> pystr \<Rightarrow> bool" where
  "contains sub [] = (sub = [])"
| "contains sub (c # cs) = (startswith (c # cs) sub \<or> contains sub cs)"

text \<open>
  \<open>str_int\<close> is the decimal text that an f-string writes for an \<open>int\<close>; \<open>dec_value\<close>
  reads a text of decimal digits back.
\<close>

definition digit_char :: "nat \<Rightarrow> nat" where
  "digit_char d = 48 + d"

function str_nat :: "nat \<Rightarrow> pystr" where
  "str_nat n = (if n < 10 then [digit_char n] else str_nat (n div 10) @ [digit_char (n mod 10)])"
  by pat_completeness auto
termination
  by (relation "measure id") auto

declare str_nat.simps [simp del]

definition str_int :: "int \<Rightarrow> pystr" where
  "str_int i = (if i < 0 then 45 # str_nat (nat (- i)) else str_nat (nat i))"

definition is_digit :: "nat \<Rightarrow> bool" where
  "is_digit c = (48 \<le> c \<and> c \<le> 57)"

definition dec_value :: "pystr \<Rightarrow> nat" where
  "dec_value ds = foldl (\<lambda>a d. 10 * a + (d - 48)) 0 ds"

text \<open>
  The entries of the Unicode database for the characters of the examples: dotless i and
  long s have the upper-case mappings I and S, sharp s has SS. \<open>unicode_recorded\<close> is
  used at these characters and at ASCII text only.
\<close>

definition unicode_recorded :: unicode where
  "unicode_recorded =
     \<lparr>upper_full = (\<lambda>c. if c = 0x131 then [0x49] else if c = 0x17F then [0x53]
                         else if c = 0xDF then [0x53, 0x53] else [c]),
      lower_full = (\<lambda>s i. [s ! i])\<rparr>"

section \<open>RowLimiter: add_limit\<close>

text \<open>
  \<^verbatim>\<open>
  def add_limit(sql: str, max_rows: int = 200) -> str:
      upper = sql.upper()
      if " LIMIT " in upper or " FETCH " in upper or " TOP " in upper:
          return sql
      return f"{sql.rstrip()} LIMIT {max_rows}"
  \<close>
\<close>

definition add_limit :: "'a unicode_scheme \<Rightarrow> pystr \<Rightarrow> int \<Rightarrow> pystr" where
  "add_limit U sql max_rows =
     (let up = upper U sql in
      if contains (py '' LIMIT '') up \<or> contains (py '' FETCH '') up
         \<or> contains (py '' TOP '') up
      then sql
      else rstrip sql @ py '' LIMIT '' @ str_int max_rows)"

section \<open>The interface of the sqlparse library\<close>

text \<open>
  sqlparse is a library outside the repository. The embedding keeps the part of its data
  model that app.py reads and takes its functions as parameters.

  A token type of \<open>sqlparse.tokens\<close> is the path of names below \<open>Token\<close>:
  \<open>Token.Text.Whitespace.Newline\<close> is \<open>[''Text'', ''Whitespace'', ''Newline'']\<close>. The
  library's test \<open>item in self\<close> on token types holds when \<open>self\<close> is a prefix of
  \<open>item\<close>.

  A leaf is \<open>Token ttype value\<close>. A group (a \<open>TokenList\<close>) has no token type, a class, its
  own attribute \<open>value\<close> (set to the joined text when the group is built) and its child
  tokens. The code tells three kinds of group apart: \<open>Identifier\<close>, \<open>IdentifierList\<close> and
  any other class, kept by its name. A \<open>Statement\<close>, the top group that
  \<open>sqlparse.parse\<close> returns, is a type of its own.
\<close>

type_synonym ttype = "string list"

definition T_Whitespace :: ttype where
  "T_Whitespace = [''Text'', ''Whitespace'']"

definition T_Punctuation :: ttype where
  "T_Punctuation = [''Punctuation'']"

definition T_Keyword :: ttype where
  "T_Keyword = [''Keyword'']"

definition T_DML :: ttype where
  "T_DML = [''Keyword'', ''DML'']"

definition T_DDL :: ttype where
  "T_DDL = [''Keyword'', ''DDL'']"

definition T_Name :: ttype where
  "T_Name = [''Name'']"

definition T_Wildcard :: ttype where
  "T_Wildcard = [''Wildcard'']"

definition T_Integer :: ttype where
  "T_Integer = [''Literal'', ''Number'', ''Integer'']"

definition ttype_in :: "ttype \<Rightarrow> ttype \<Rightarrow> bool" where
  "ttype_in item self = (take (length self) item = self)"

datatype cls = Identifier | IdentifierList | OtherGroup string

datatype token =
    Token ttype pystr
  | TokenList cls pystr "token list"

datatype statement = Statement pystr "token list"

fun tok_value :: "token \<Rightarrow> pystr" where
  "tok_value (Token ty v) = v"
| "tok_value (TokenList c v ts) = v"

fun set_value :: "token \<Rightarrow> pystr \<Rightarrow> token" where
  "set_value (Token ty v) new = Token ty new"
| "set_value (TokenList c v ts) new = TokenList c new ts"

fun is_group :: "token \<Rightarrow> bool" where
  "is_group (Token ty v) = False"
| "is_group (TokenList c v ts) = True"

text \<open>\<open>Token.__init__\<close>: \<open>is_whitespace = ttype in T.Whitespace\<close>; a group has no token type.\<close>

fun is_whitespace :: "token \<Rightarrow> bool" where
  "is_whitespace (Token ty v) = ttype_in ty T_Whitespace"
| "is_whitespace (TokenList c v ts) = False"

fun isinstance :: "token \<Rightarrow> cls \<Rightarrow> bool" where
  "isinstance (Token ty v) k = False"
| "isinstance (TokenList c v ts) k = (c = k)"

text \<open>\<open>flatten\<close> yields the leaves of a token, left to right; a leaf yields itself.\<close>

fun flatten :: "token \<Rightarrow> token list" where
  "flatten (Token ty v) = [Token ty v]"
| "flatten (TokenList c v ts) = concat (map flatten ts)"

fun stmt_tokens :: "statement \<Rightarrow> token list" where
  "stmt_tokens (Statement v ts) = ts"

definition flatten_stmt :: "statement \<Rightarrow> token list" where
  "flatten_stmt stmt = concat (map flatten (stmt_tokens stmt))"

text \<open>
  \<open>TokenList.__str__\<close> joins the values of the flattened leaves; the attribute \<open>value\<close> of
  a group is not read.
\<close>

definition str_tokens :: "token list \<Rightarrow> pystr" where
  "str_tokens ts = concat (map tok_value (concat (map flatten ts)))"

definition str_stmt :: "statement \<Rightarrow> pystr" where
  "str_stmt stmt = str_tokens (stmt_tokens stmt)"

text \<open>
  The functions of the library that app.py calls: \<open>sqlparse.parse\<close>, and the methods
  \<open>get_real_name\<close> and \<open>get_alias\<close> of an identifier (\<open>None\<close> is Python's \<open>None\<close>).
\<close>

record sqlparse =
  parse :: "pystr \<Rightarrow> statement list"
  get_real_name :: "token \<Rightarrow> pystr option"
  get_alias :: "token \<Rightarrow> pystr option"

section \<open>SafetyGate: is_select_only\<close>

text \<open>
  \<^verbatim>\<open>
  def is_select_only(sql: str) -> bool:
      parsed = sqlparse.parse(sql)
      if not parsed:
          return False
      stmt = parsed[0]
      forbidden = {"INSERT", "UPDATE", "DELETE", "DROP", "ALTER", "TRUNCATE", "CREATE",
                   "REPLACE", "GRANT", "REVOKE", "MERGE", "CALL", "EXEC", "BEGIN", "COMMIT"}
      tokens = [t for t in stmt.flatten() if not t.is_whitespace]
      for t in tokens:
          if t.value.upper() in forbidden:
              return False
      return sql.strip().upper().startswith(("SELECT", "WITH"))
  \<close>
\<close>

definition forbidden :: "pystr list" where
  "forbidden =
     map py [''INSERT'', ''UPDATE'', ''DELETE'', ''DROP'', ''ALTER'', ''TRUNCATE'', ''CREATE'',
             ''REPLACE'', ''GRANT'', ''REVOKE'', ''MERGE'', ''CALL'', ''EXEC'', ''BEGIN'',
             ''COMMIT'']"

text \<open>The \<open>for\<close> loop: \<open>True\<close> when it meets a forbidden token and returns.\<close>

fun hits_forbidden :: "'a unicode_scheme \<Rightarrow> token list \<Rightarrow> bool" where
  "hits_forbidden U [] = False"
| "hits_forbidden U (t # ts) =
     (if upper U (tok_value t) \<in> set forbidden then True else hits_forbidden U ts)"

definition is_select_only ::
  "'a unicode_scheme \<Rightarrow> 'b sqlparse_scheme \<Rightarrow> pystr \<Rightarrow> bool" where
  "is_select_only U L sql =
     (case parse L sql of
        [] \<Rightarrow> False
      | stmt # rest \<Rightarrow>
          (let tokens = filter (\<lambda>t. \<not> is_whitespace t) (flatten_stmt stmt) in
           if hits_forbidden U tokens then False
           else startswith (upper U (strip sql)) (py ''SELECT'')
                \<or> startswith (upper U (strip sql)) (py ''WITH'')))"

text \<open>
  The answers of \<open>sqlparse.parse\<close> on the texts of the examples, each a list of statements
  with the token tree the library builds: the lexer gives one \<open>Whitespace\<close> token per
  blank, a name becomes an \<open>Identifier\<close> group, and a statement ends after the blanks that
  follow its semicolon.
\<close>

definition ws :: token where
  "ws = Token T_Whitespace (py '' '')"

definition ident_t :: token where
  "ident_t = TokenList Identifier (py ''t'') [Token T_Name (py ''t'')]"

definition ident_employees_e :: token where
  "ident_employees_e =
     TokenList Identifier (py ''employees e'')
       [Token T_Name (py ''employees''), ws, TokenList Identifier (py ''e'') [Token T_Name (py ''e'')]]"

definition parsed_select_then_drop :: "statement list" where
  "parsed_select_then_drop =
     [Statement (py ''SELECT * FROM t; '')
        [Token T_DML (py ''SELECT''), ws, Token T_Wildcard (py ''*''), ws, Token T_Keyword (py ''FROM''), ws,
         ident_t, Token T_Punctuation (py '';''), ws],
      Statement (py ''DROP TABLE t'')
        [Token T_DDL (py ''DROP''), ws, Token T_Keyword (py ''TABLE''), ws, ident_t]]"

definition parsed_select_star :: "statement list" where
  "parsed_select_star =
     [Statement (py ''SELECT * FROM t'')
        [Token T_DML (py ''SELECT''), ws, Token T_Wildcard (py ''*''), ws, Token T_Keyword (py ''FROM''), ws,
         ident_t]]"

definition parsed_select_1 :: "statement list" where
  "parsed_select_1 =
     [Statement (py ''   select 1'') [ws, ws, ws, Token T_DML (py ''select''), ws, Token T_Integer (py ''1'')]]"

definition parsed_employees :: "statement list" where
  "parsed_employees =
     [Statement (py ''SELECT * FROM employees e'')
        [Token T_DML (py ''SELECT''), ws, Token T_Wildcard (py ''*''), ws, Token T_Keyword (py ''FROM''), ws,
         ident_employees_e]]"

text \<open>
  \<open>sqlparse_recorded\<close> is the library on the texts above, with the names and aliases it
  reports for their identifiers. It is used at these texts and at the empty text only.
\<close>

definition recorded_parse :: "pystr \<Rightarrow> statement list" where
  "recorded_parse sql =
     (if sql = py ''SELECT * FROM t; DROP TABLE t'' then parsed_select_then_drop
      else if sql = py ''SELECT * FROM t'' then parsed_select_star
      else if sql = py ''   select 1'' then parsed_select_1
      else if sql = py ''SELECT * FROM employees e'' then parsed_employees
      else [])"

definition recorded_real_name :: "token \<Rightarrow> pystr option" where
  "recorded_real_name t =
     (if t = ident_employees_e then Some (py ''employees'')
      else if t = ident_t then Some (py ''t'')
      else None)"

definition recorded_alias :: "token \<Rightarrow> pystr option" where
  "recorded_alias t = (if t = ident_employees_e then Some (py ''e'') else None)"

definition sqlparse_recorded :: sqlparse where
  "sqlparse_recorded =
     \<lparr>parse = recorded_parse, get_real_name = recorded_real_name,
      get_alias = recorded_alias\<rparr>"

section \<open>IdentifierNormalizer: normalize_table_names\<close>

text \<open>
  \<^verbatim>\<open>
  def normalize_table_names(sql: str, schema: dict) -> str:
      if not schema:
          return sql
      table_map = {t.lower(): t for t in schema.keys()}
      parsed = sqlparse.parse(sql)
      if not parsed:
          return sql
      stmt = parsed[0]

      def _fix_identifier(token: Identifier):
          name = token.get_real_name()
          if not name:
              return
          key = name.lower()
          if key in table_map:
              canonical = table_map[key]
              alias = token.get_alias()
              if alias and alias != canonical:
                  token.value = f"{canonical} AS {alias}"
              else:
                  token.value = canonical

      def _recurse(tokens):
          for token in tokens:
              if isinstance(token, Identifier):
                  _fix_identifier(token)
              elif isinstance(token, IdentifierList):
                  for id_token in token.get_identifiers():
                      if isinstance(id_token, Identifier):
                          _fix_identifier(id_token)
              elif token.is_group:
                  _recurse(token.tokens)

      _recurse(stmt.tokens)
      return str(stmt)
  \<close>
  The schema is a dictionary from table names to column lists, kept as the list of its
  items in insertion order. The dictionary comprehension writes the keys in that order, so
  a later table wins when two names agree after lowering. The walk assigns to the attribute
  \<open>value\<close> of nodes in place; the model returns the tree with those values replaced.
\<close>

type_synonym schema = "(pystr \<times> pystr list) list"

definition table_map :: "'a unicode_scheme \<Rightarrow> schema \<Rightarrow> (pystr \<rightharpoonup> pystr)" where
  "table_map U schema = map_of (rev (map (\<lambda>t. (lower U t, t)) (map fst schema)))"

definition fix_identifier ::
  "'a unicode_scheme \<Rightarrow> 'b sqlparse_scheme \<Rightarrow> (pystr \<rightharpoonup> pystr) \<Rightarrow> token \<Rightarrow> token" where
  "fix_identifier U L tm token =
     (case get_real_name L token of
        None \<Rightarrow> token
      | Some name \<Rightarrow>
          if name = [] then token
          else (case tm (lower U name) of
                  None \<Rightarrow> token
                | Some canonical \<Rightarrow>
                    (case get_alias L token of
                       None \<Rightarrow> set_value token canonical
                     | Some alias \<Rightarrow>
                         if alias \<noteq> [] \<and> alias \<noteq> canonical
                         then set_value token (canonical @ py '' AS '' @ alias)
                         else set_value token canonical)))"

text \<open>
  \<open>IdentifierList.get_identifiers\<close> yields the children that are neither white space nor
  the punctuation \<open>,\<close>; \<open>match_comma\<close> is \<open>token.match(T.Punctuation, ',')\<close>.
\<close>

fun match_comma :: "token \<Rightarrow> bool" where
  "match_comma (Token ty v) = (ty = T_Punctuation \<and> v = py '','')"
| "match_comma (TokenList c v ts) = False"

definition fix_listed ::
  "'a unicode_scheme \<Rightarrow> 'b sqlparse_scheme \<Rightarrow> (pystr \<rightharpoonup> pystr) \<Rightarrow> token \<Rightarrow> token" where
  "fix_listed U L tm id_token =
     (if \<not> (is_whitespace id_token \<or> match_comma id_token) \<and> isinstance id_token Identifier
      then fix_identifier U L tm id_token
      else id_token)"

fun recurse_token ::
  "'a unicode_scheme \<Rightarrow> 'b sqlparse_scheme \<Rightarrow> (pystr \<rightharpoonup> pystr) \<Rightarrow> token \<Rightarrow> token" where
  "recurse_token U L tm (Token ty v) = Token ty v"
| "recurse_token U L tm (TokenList c v ts) =
     (if c = Identifier then fix_identifier U L tm (TokenList c v ts)
      else if c = IdentifierList then TokenList c v (map (fix_listed U L tm) ts)
      else TokenList c v (map (recurse_token U L tm) ts))"

definition recurse ::
  "'a unicode_scheme \<Rightarrow> 'b sqlparse_scheme \<Rightarrow> (pystr \<rightharpoonup> pystr) \<Rightarrow> token list \<Rightarrow> token list" where
  "recurse U L tm tokens = map (recurse_token U L tm) tokens"

definition normalize_table_names ::
  "'a unicode_scheme \<Rightarrow> 'b sqlparse_scheme \<Rightarrow> pystr \<Rightarrow> schema \<Rightarrow> pystr" where
  "normalize_table_names U L sql schema =
     (if schema = [] then sql
      else (let tm = table_map U schema in
            case parse L sql of
              [] \<Rightarrow> sql
            | stmt # rest \<Rightarrow> str_tokens (recurse U L tm (stmt_tokens stmt))))"

section \<open>ResponseRepair: the parsing block of ask_llm\<close>

text \<open>
  The values that \<open>json.loads\<close> returns are Python's \<open>None\<close>, booleans, integers,
  floats, strings, lists and dictionaries. A float is kept as a mantissa and a binary
  exponent, or as one of the special values; a dictionary is the list of its items in
  insertion order.
\<close>

datatype pyfloat = Finite int int | Infinity bool | NaN

datatype pyval =
    PyNone
  | PyBool bool
  | PyInt int
  | PyFloat pyfloat
  | PyStr pystr
  | PyList "pyval list"
  | PyDict "(pystr \<times> pyval) list"

text \<open>What the block writes to the page: \<open>st.warning\<close> and \<open>st.text\<close>.\<close>

datatype ui = St_warning pystr | St_text pystr

text \<open>The characters that the block names.\<close>

abbreviation newline :: nat where "newline \<equiv> 0x0A"
abbreviation double_quote :: nat where "double_quote \<equiv> 0x22"
abbreviation single_quote :: nat where "single_quote \<equiv> 0x27"
abbreviation comma :: nat where "comma \<equiv> 0x2C"
abbreviation bracket_close :: nat where "bracket_close \<equiv> 0x5D"
abbreviation brace_open :: nat where "brace_open \<equiv> 0x7B"
abbreviation brace_close :: nat where "brace_close \<equiv> 0x7D"

text \<open>\<open>str.find\<close> and \<open>str.rfind\<close> of one character: its first or last index, or \<open>-1\<close>.\<close>

definition str_find :: "pystr \<Rightarrow> nat \<Rightarrow> int" where
  "str_find s c = (if c \<in> set s then int (length (takeWhile (\<lambda>x. x \<noteq> c) s)) else - 1)"

definition str_rfind :: "pystr \<Rightarrow> nat \<Rightarrow> int" where
  "str_rfind s c =
     (if c \<in> set s then int (length s) - 1 - int (length (takeWhile (\<lambda>x. x \<noteq> c) (rev s)))
      else - 1)"

text \<open>
  The slice \<open>s[i:j]\<close>: a negative index counts from the end, both indices are clamped to
  the string, and the slice is empty when the second does not lie after the first.
\<close>

definition clamp_index :: "nat \<Rightarrow> int \<Rightarrow> nat" where
  "clamp_index n i = (if i < 0 then nat (max 0 (int n + i)) else min n (nat i))"

definition slice :: "pystr \<Rightarrow> int \<Rightarrow> int \<Rightarrow> pystr" where
  "slice s i j =
     (let a = clamp_index (length s) i; b = clamp_index (length s) j
      in take (b - a) (drop a s))"

text \<open>\<open>fragment.replace("'", '"')\<close>\<close>

definition replace_quotes :: "pystr \<Rightarrow> pystr" where
  "replace_quotes s = map (\<lambda>c. if c = single_quote then double_quote else c) s"

text \<open>
  \<open>re.sub(r"//.*?\n", "", fragment)\<close>. The dot matches every character but the newline,
  so a match at a position is \<open>//\<close>, the characters up to the next newline, and that
  newline; there is none when no newline follows. The scan goes on after a match, or one
  character further.
\<close>

function strip_line_comments :: "pystr \<Rightarrow> pystr" where
  "strip_line_comments [] = []"
| "strip_line_comments (c # cs) =
     (if startswith (c # cs) (py ''//'') \<and> newline \<in> set (drop 2 (c # cs))
      then strip_line_comments (tl (dropWhile (\<lambda>x. x \<noteq> newline) (drop 2 (c # cs))))
      else c # strip_line_comments cs)"
  by pat_completeness auto
termination
proof (relation "measure length")
  fix c :: nat and cs :: pystr
  have "length (tl (dropWhile (\<lambda>x. x \<noteq> newline) (drop 2 (c # cs))))
        \<le> length (dropWhile (\<lambda>x. x \<noteq> newline) (drop 2 (c # cs)))"
    by simp
  also have "\<dots> \<le> length (drop 2 (c # cs))"
    by (rule length_dropWhile_le)
  also have "\<dots> < length (c # cs)"
    by simp
  finally show "(tl (dropWhile (\<lambda>x. x \<noteq> newline) (drop 2 (c # cs))), c # cs)
                \<in> measure length"
    by simp
qed simp_all

text \<open>
  \<open>re.sub(r"/\*.*?\*/", "", fragment)\<close>. After \<open>/*\<close> the lazy \<open>.*?\<close> takes characters
  other than a newline until \<open>*/\<close> follows. \<open>block_end\<close> gives the text after that
  \<open>*/\<close>, or \<open>None\<close> when a newline or the end comes first.
\<close>

fun block_end :: "pystr \<Rightarrow> pystr option" where
  "block_end [] = None"
| "block_end (c # cs) =
     (if startswith (c # cs) (py ''*/'') then Some (drop 2 (c # cs))
      else if c = newline then None
      else block_end cs)"

function strip_block_comments :: "pystr \<Rightarrow> pystr" where
  "strip_block_comments [] = []"
| "strip_block_comments (c # cs) =
     (if startswith (c # cs) (py ''/*'')
      then (case block_end (drop 2 (c # cs)) of
              Some r \<Rightarrow> strip_block_comments r
            | None \<Rightarrow> c # strip_block_comments cs)
      else c # strip_block_comments cs)"
  by pat_completeness auto
termination
proof (relation "measure length")
  fix c :: nat and cs r :: pystr
  assume found: "block_end (drop 2 (c # cs)) = Some r"
  have "block_end s = Some r \<Longrightarrow> length r < length s" for s
    by (induction s) (auto split: if_splits)
  with found have "length r < length (drop 2 (c # cs))"
    by blast
  then show "(r, c # cs) \<in> measure length"
    by simp
qed simp_all

text \<open>
  \<open>re.sub(r",\s*}", "}", fragment)\<close> and \<open>re.sub(r",\s*]", "]", fragment)\<close>, with the
  closing character as a parameter. After a comma the greedy \<open>\s*\<close> takes all the white
  space that follows; the match stands when the closing character comes next, and the
  comma and the white space are dropped.
\<close>

function remove_commas :: "nat \<Rightarrow> pystr \<Rightarrow> pystr" where
  "remove_commas close [] = []"
| "remove_commas close (c # cs) =
     (if c = comma \<and> startswith (dropWhile isspace cs) [close]
      then close # remove_commas close (tl (dropWhile isspace cs))
      else c # remove_commas close cs)"
  by pat_completeness auto
termination
proof (relation "measure (\<lambda>(close, s). length s)")
  fix close c :: nat and cs :: pystr
  have "length (tl (dropWhile isspace cs)) \<le> length (dropWhile isspace cs)"
    by simp
  also have "\<dots> \<le> length cs"
    by (rule length_dropWhile_le)
  finally show "((close, tl (dropWhile isspace cs)), close, c # cs)
                \<in> measure (\<lambda>(close, s). length s)"
    by simp
qed simp_all

text \<open>
  \<^verbatim>\<open>
      content = resp.choices[0].message.content.strip()
      try:
          return json.loads(content)
      except Exception:
          start, end = content.find("{"), content.rfind("}")
          fragment = content[start:end+1]
          fragment = fragment.replace("'", '"')
          fragment = re.sub(r"//.*?\n", "", fragment)
          fragment = re.sub(r"/\*.*?\*/", "", fragment)
          fragment = re.sub(r",\s*}", "}", fragment)
          fragment = re.sub(r",\s*]", "]", fragment)
          try:
              return json.loads(fragment)
          except Exception as e:
              st.warning("... LLM returned invalid JSON. Showing raw output below:")
              st.text(content)
              raise e
  \<close>
  \<open>parse_llm_response\<close> is this block from the first \<open>try\<close> on, as a function of
  \<open>content\<close>; \<open>ask_llm_reply\<close> is the whole of it, as a function of the reply of the
  service, which the first line strips. \<open>json.loads\<close> is a parameter: \<open>Inr\<close> the decoded
  value, \<open>Inl\<close> the exception it raises. The result is what the block writes to the page
  and the value it returns or the exception it raises.
\<close>

definition invalid_json_warning :: pystr where
  "invalid_json_warning =
     [0x26A0, 0xFE0F] @ py '' LLM returned invalid JSON. Showing raw output below:''"

definition extract_fragment :: "pystr \<Rightarrow> pystr" where
  "extract_fragment content =
     (let start = str_find content brace_open; end = str_rfind content brace_close
      in slice content start (end + 1))"

definition parse_llm_response ::
  "(pystr \<Rightarrow> 'e + pyval) \<Rightarrow> pystr \<Rightarrow> ui list \<times> ('e + pyval)" where
  "parse_llm_response json_loads content =
     (case json_loads content of
        Inr v \<Rightarrow> ([], Inr v)
      | Inl e0 \<Rightarrow>
          (let fragment = extract_fragment content;
               fragment = replace_quotes fragment;
               fragment = strip_line_comments fragment;
               fragment = strip_block_comments fragment;
               fragment = remove_commas brace_close fragment;
               fragment = remove_commas bracket_close fragment
           in case json_loads fragment of
                Inr v \<Rightarrow> ([], Inr v)
              | Inl e \<Rightarrow> ([St_warning invalid_json_warning, St_text content], Inl e)))"

definition ask_llm_reply ::
  "(pystr \<Rightarrow> 'e + pyval) \<Rightarrow> pystr \<Rightarrow> ui list \<times> ('e + pyval)" where
  "ask_llm_reply json_loads reply = parse_llm_response json_loads (strip reply)"

text \<open>The five repairs of the block, in its order, on the extracted fragment.\<close>

definition repaired_fragment :: "pystr \<Rightarrow> pystr" where
  "repaired_fragment content =
     remove_commas bracket_close
       (remove_commas brace_close
          (strip_block_comments
             (strip_line_comments
                (replace_quotes (extract_fragment content)))))"

text \<open>
  The answers of \<open>json.loads\<close> on the texts of the examples. \<open>json_recorded\<close> is used at
  these texts, at the empty text and at texts that are no JSON.
\<close>

datatype json_error = JSONDecodeError

definition reply_with_prose :: pystr where
  \<open>reply_with_prose = py ''Here is the answer: {'sql': 'SELECT 1', 'summary': 'ok',}''\<close>

definition reply_fragment :: pystr where
  \<open>reply_fragment = py ''{'sql': 'SELECT 1', 'summary': 'ok',}''\<close>

definition reply_repaired :: pystr where
  \<open>reply_repaired = py ''{"sql": "SELECT 1", "summary": "ok"}''\<close>

definition reply_with_comments :: pystr where
  \<open>reply_with_comments =
     py ''Sure! {'a': 1, // note'' @ [newline] @ py '' 'b': [1, 2,], /* c */ } Bye''\<close>

definition reply_without_comments :: pystr where
  \<open>reply_without_comments = py ''{"a": 1,  "b": [1, 2]}''\<close>

definition reply_with_nbsp :: pystr where
  \<open>reply_with_nbsp = py ''{'a': 1,'' @ [0xA0] @ py ''}''\<close>

definition json_recorded :: "pystr \<Rightarrow> json_error + pyval" where
  "json_recorded s =
     (if s = reply_repaired
      then Inr (PyDict [(py ''sql'', PyStr (py ''SELECT 1'')), (py ''summary'', PyStr (py ''ok''))])
      else Inl JSONDecodeError)"

section \<open>The chart specification in the request handler\<close>

text \<open>
  \<^verbatim>\<open>
      chart_spec = llm_out.get("chart")
      if chart_spec:
          try:
              if isinstance(chart_spec, str):
                  chart_spec = json.loads(chart_spec)
              # Remove external data reference if present
              if "data" in chart_spec:
                  del chart_spec["data"]
              st.subheader("... Visualization")
              st.vega_lite_chart(df, chart_spec, use_container_width=True)
          except Exception as e:
              st.warning(f"Chart rendering failed: {e}")
  \<close>
  \<open>chart_to_renderer\<close> is this block up to the call of the renderer: \<open>No_chart\<close> when
  \<open>chart_spec\<close> is falsy, \<open>Chart_failed\<close> when an exception is raised before the call, and
  \<open>Handed spec\<close> when \<open>spec\<close> is passed to \<open>st.vega_lite_chart\<close>.
\<close>

datatype chart_outcome = No_chart | Chart_failed | Handed pyval


fun truthy :: "pyval \<Rightarrow> bool" where
  "truthy PyNone = False"
| "truthy (PyBool b) = b"
| "truthy (PyInt i) = (i \<noteq> 0)"
| "truthy (PyFloat (Finite m e)) = (m \<noteq> 0)"
| "truthy (PyFloat (Infinity s)) = True"
| "truthy (PyFloat NaN) = True"
| "truthy (PyStr s) = (s \<noteq> [])"
| "truthy (PyList xs) = (xs \<noteq> [])"
| "truthy (PyDict kvs) = (kvs \<noteq> [])"

text \<open>
  \<open>"data" in chart_spec\<close>: a key of a dictionary, a substring of a string, an element of a
  list; a \<open>TypeError\<close> (\<open>None\<close>) on any other value.
\<close>

fun has_data :: "pyval \<Rightarrow> bool option" where
  "has_data (PyDict kvs) = Some (py ''data'' \<in> set (map fst kvs))"
| "has_data (PyStr s) = Some (contains (py ''data'') s)"
| "has_data (PyList xs) = Some (PyStr (py ''data'') \<in> set xs)"
| "has_data v = None"

text \<open>
  \<open>del chart_spec["data"]\<close>, run when the key is present: the item leaves a dictionary; a
  string or a list raises a \<open>TypeError\<close> (\<open>None\<close>).
\<close>

fun del_data :: "pyval \<Rightarrow> pyval option" where
  "del_data (PyDict kvs) = Some (PyDict (filter (\<lambda>kv. fst kv \<noteq> py ''data'') kvs))"
| "del_data v = None"

definition decoded_spec :: "(pystr \<Rightarrow> 'e + pyval) \<Rightarrow> pyval \<Rightarrow> 'e + pyval" where
  "decoded_spec json_loads chart_spec =
     (case chart_spec of PyStr s \<Rightarrow> json_loads s | _ \<Rightarrow> Inr chart_spec)"

definition chart_to_renderer :: "(pystr \<Rightarrow> 'e + pyval) \<Rightarrow> pyval \<Rightarrow> chart_outcome" where
  "chart_to_renderer json_loads chart_spec =
     (if \<not> truthy chart_spec then No_chart
      else (case decoded_spec json_loads chart_spec of
              Inl e \<Rightarrow> Chart_failed
            | Inr spec \<Rightarrow>
                (case has_data spec of
                   None \<Rightarrow> Chart_failed
                 | Some False \<Rightarrow> Handed spec
                 | Some True \<Rightarrow>
                     (case del_data spec of
                        None \<Rightarrow> Chart_failed
                      | Some spec' \<Rightarrow> Handed spec'))))"

definition bar_chart_items :: "(pystr \<times> pyval) list" where
  "bar_chart_items =
     [(py ''data'', PyDict [(py ''url'', PyStr (py ''rows.csv''))]),
      (py ''mark'', PyStr (py ''bar'')),
      (py ''encoding'', PyDict [(py ''x'', PyDict [(py ''field'', PyStr (py ''city''))])])]"

definition bar_chart_spec :: pyval where
  "bar_chart_spec = PyDict bar_chart_items"

section \<open>Facts about the text operations\<close>

lemmas text_defs =
  py_def upper_def upper_char_def ascii_upper_def lower_def lower_at_def ascii_lower_def
  isspace_def whitespace_def lstrip_def rstrip_def strip_def startswith_def

lemma upper_append: "upper U (a @ b) = upper U a @ upper U b"
  by (simp add: upper_def)

lemma startswith_append: "startswith (p @ s) p"
  by (simp add: startswith_def)

lemma contains_prefix: "contains sub (sub @ b)"
proof (cases "sub @ b")
  case Nil
  then show ?thesis by simp
next
  case (Cons c cs)
  have "startswith (sub @ b) sub" by (rule startswith_append)
  with Cons show ?thesis by simp
qed

lemma contains_append: "contains sub (a @ sub @ b)"
proof (induction a)
  case Nil
  show ?case using contains_prefix [of sub b] by simp
next
  case (Cons c a)
  then show ?case by simp
qed

lemma upper_limit_kw: "upper U (py '' LIMIT '') = py '' LIMIT ''"
  by (simp add: text_defs)

lemma add_limit_has_limit:
  "contains (py '' LIMIT '') (upper U (rstrip sql @ py '' LIMIT '' @ str_int n))"
proof -
  have "upper U (rstrip sql @ py '' LIMIT '' @ str_int n)
        = upper U (rstrip sql) @ py '' LIMIT '' @ upper U (str_int n)"
    by (simp only: upper_append upper_limit_kw)
  then show ?thesis
    by (simp only: contains_append)
qed

lemma dec_value_snoc: "dec_value (ds @ [d]) = 10 * dec_value ds + (d - 48)"
  by (simp add: dec_value_def)

lemma str_nat_value: "dec_value (str_nat n) = n"
proof (induction n rule: str_nat.induct)
  case (1 n)
  show ?case
  proof (cases "n < 10")
    case True
    then show ?thesis by (simp add: str_nat.simps [of n] dec_value_def digit_char_def)
  next
    case False
    with 1 have "dec_value (str_nat (n div 10)) = n div 10" by simp
    with False show ?thesis
      by (simp add: str_nat.simps [of n] dec_value_snoc digit_char_def)
  qed
qed

lemma str_nat_digits: "list_all is_digit (str_nat n)"
proof (induction n rule: str_nat.induct)
  case (1 n)
  show ?case
  proof (cases "n < 10")
    case True
    then have "str_nat n = [digit_char n]" by (simp add: str_nat.simps [of n])
    moreover from True have "is_digit (digit_char n)"
      by (simp add: is_digit_def digit_char_def)
    ultimately show ?thesis by simp
  next
    case False
    with 1 have ih: "list_all is_digit (str_nat (n div 10))" by simp
    have "n mod 10 < 10" by simp
    then have "n mod 10 \<le> 9" by linarith
    then have d: "is_digit (digit_char (n mod 10))"
      by (simp add: is_digit_def digit_char_def)
    from False have "str_nat n = str_nat (n div 10) @ [digit_char (n mod 10)]"
      by (simp add: str_nat.simps [of n])
    with ih d show ?thesis by simp
  qed
qed

lemma str_nat_not_empty: "str_nat n \<noteq> []"
  by (simp add: str_nat.simps [of n])

lemma str_nat_leading: "hd (str_nat n) = 48 \<Longrightarrow> str_nat n = [48]"
proof (induction n rule: str_nat.induct)
  case (1 n)
  show ?case
  proof (cases "n < 10")
    case True
    then have eq: "str_nat n = [digit_char n]" by (simp add: str_nat.simps [of n])
    with 1(2) have "digit_char n = 48" by simp
    with eq show ?thesis by simp
  next
    case False
    with 1(2) have "hd (str_nat (n div 10)) = 48"
      by (simp add: str_nat.simps [of n] str_nat_not_empty)
    with 1(1) False have "str_nat (n div 10) = [48]" by simp
    then have "dec_value (str_nat (n div 10)) = 0" by (simp add: dec_value_def)
    then have "n div 10 = 0" by (simp add: str_nat_value)
    with False show ?thesis by simp
  qed
qed

lemma str_int_200: "str_int 200 = py ''200''"
  by (simp add: str_int_def str_nat.simps [of 200] str_nat.simps [of 20] str_nat.simps [of 2]
      digit_char_def py_def)

section \<open>Facts about the SafetyGate\<close>

lemma hits_forbidden_iff:
  "hits_forbidden U ts \<longleftrightarrow> (\<exists>t \<in> set ts. upper U (tok_value t) \<in> set forbidden)"
  by (induction ts) auto

text \<open>A token spelled with a dotless i is upper-cased to the forbidden \<open>INSERT\<close>.\<close>

lemma hits_forbidden_dotless_i:
  "hits_forbidden unicode_recorded [Token T_Name [0x131, 110, 115, 101, 114, 116]]"
  by (simp add: forbidden_def unicode_recorded_def text_defs)

lemma startswith_length: "startswith s p \<Longrightarrow> length p \<le> length s"
proof -
  assume "startswith s p"
  then have "length (take (length p) s) = length p" by (simp add: startswith_def)
  then show ?thesis by simp
qed

lemma startswith_blank_suffix:
  assumes w: "\<forall>c \<in> set w. isspace c" and p: "\<forall>c \<in> set p. \<not> isspace c"
  shows "startswith (x @ w) p = startswith x p"
proof (cases "length p \<le> length x")
  case True
  then show ?thesis by (simp add: startswith_def)
next
  case False
  then have long: "length x < length p" by simp
  have "\<not> startswith x p"
  proof
    assume "startswith x p"
    then have "length p \<le> length x" by (rule startswith_length)
    with long show False by simp
  qed
  moreover have "\<not> startswith (x @ w) p"
  proof
    assume sw: "startswith (x @ w) p"
    define r where "r = take (length p - length x) w"
    from sw long have eq: "p = x @ r"
      by (simp add: startswith_def r_def)
    then have "length p = length x + length r" by simp
    with long have "r \<noteq> []" by auto
    then obtain c where c: "c \<in> set r" by (cases r) auto
    then have "c \<in> set w" unfolding r_def by (rule in_set_takeD)
    with w have "isspace c" by simp
    moreover from c eq have "c \<in> set p" by simp
    ultimately show False using p by blast
  qed
  ultimately show ?thesis by simp
qed

lemma upper_blanks:
  assumes "\<forall>c. isspace c \<longrightarrow> upper_char U c = [c]" and "\<forall>c \<in> set w. isspace c"
  shows "upper U w = w"
  using assms(2)
proof (induction w)
  case Nil
  show ?case by (simp add: upper_def)
next
  case (Cons c w)
  then have "upper_char U c = [c]" using assms(1) by simp
  moreover from Cons have "upper U w = w" by simp
  ultimately show ?case by (simp add: upper_def)
qed

lemma rstrip_decompose: "\<exists>w. s = rstrip s @ w \<and> (\<forall>c \<in> set w. isspace c)"
proof -
  have "rev s = takeWhile isspace (rev s) @ dropWhile isspace (rev s)" by simp
  then have "rev (rev s) = rev (takeWhile isspace (rev s) @ dropWhile isspace (rev s))"
    by (rule arg_cong)
  then have "s = rev (dropWhile isspace (rev s)) @ rev (takeWhile isspace (rev s))"
    by (simp only: rev_append rev_rev_ident)
  moreover have "\<forall>c \<in> set (rev (takeWhile isspace (rev s))). isspace c"
    by (auto dest: set_takeWhileD)
  ultimately show ?thesis unfolding rstrip_def by blast
qed

lemma startswith_upper_strip:
  assumes "\<forall>c. isspace c \<longrightarrow> upper_char U c = [c]" and "\<forall>c \<in> set p. \<not> isspace c"
  shows "startswith (upper U (strip s)) p = startswith (upper U (lstrip s)) p"
proof -
  obtain w where w: "lstrip s = rstrip (lstrip s) @ w" "\<forall>c \<in> set w. isspace c"
    using rstrip_decompose by blast
  have "upper U (rstrip (lstrip s) @ w) = upper U (rstrip (lstrip s)) @ w"
    using upper_blanks [OF assms(1) w(2)] by (simp add: upper_append)
  moreover have "startswith (upper U (rstrip (lstrip s)) @ w) p
                 = startswith (upper U (rstrip (lstrip s))) p"
    using w(2) assms(2) by (rule startswith_blank_suffix)
  ultimately show ?thesis using w(1) by (simp add: strip_def)
qed

lemma select_no_blank: "\<forall>c \<in> set (py ''SELECT''). \<not> isspace c"
  by (simp add: text_defs)

lemma with_no_blank: "\<forall>c \<in> set (py ''WITH''). \<not> isspace c"
  by (simp add: text_defs)

lemma blanks_uncased_iff:
  "(\<forall>c. isspace c \<longrightarrow> upper_char U c = [c])
   \<longleftrightarrow> list_all (\<lambda>c. upper_char U c = [c]) whitespace"
  by (auto simp: isspace_def list_all_iff)

lemma is_select_only_first_statement:
  assumes "parse L sql = stmt # rest" and "t \<in> set (flatten_stmt stmt)"
    and "\<not> is_whitespace t" and "upper U (tok_value t) \<in> set forbidden"
  shows "\<not> is_select_only U L sql"
proof -
  from assms(2-4)
  have "hits_forbidden U (filter (\<lambda>t. \<not> is_whitespace t) (flatten_stmt stmt))"
    unfolding hits_forbidden_iff by auto
  with assms(1) show ?thesis by (simp add: is_select_only_def)
qed

lemma is_select_only_clean:
  assumes "parse L sql = stmt # rest"
    and "\<forall>t \<in> set (flatten_stmt stmt). upper U (tok_value t) \<notin> set forbidden"
  shows "is_select_only U L sql \<longleftrightarrow>
           startswith (upper U (strip sql)) (py ''SELECT'')
           \<or> startswith (upper U (strip sql)) (py ''WITH'')"
proof -
  from assms(2)
  have "\<not> hits_forbidden U (filter (\<lambda>t. \<not> is_whitespace t) (flatten_stmt stmt))"
    unfolding hits_forbidden_iff by auto
  with assms(1) show ?thesis
    by (simp add: is_select_only_def)
qed

lemmas sql_defs =
  is_select_only_def sqlparse_recorded_def recorded_parse_def recorded_real_name_def
  recorded_alias_def parsed_select_then_drop_def parsed_select_star_def parsed_select_1_def
  parsed_employees_def ident_t_def ident_employees_e_def ws_def flatten_stmt_def
  forbidden_def ttype_in_def T_Whitespace_def T_DML_def T_DDL_def T_Keyword_def T_Name_def
  T_Wildcard_def T_Integer_def T_Punctuation_def

section \<open>Facts about the IdentifierNormalizer\<close>

lemma flatten_set_value: "is_group t \<Longrightarrow> flatten (set_value t v) = flatten t"
  by (cases t) simp_all

lemma isinstance_is_group: "isinstance t k \<Longrightarrow> is_group t"
  by (cases t) simp_all

lemma flatten_fix_identifier: "is_group t \<Longrightarrow> flatten (fix_identifier U L tm t) = flatten t"
  by (simp add: fix_identifier_def flatten_set_value split: option.splits)

lemma flatten_fix_listed: "flatten (fix_listed U L tm t) = flatten t"
  using isinstance_is_group [of t Identifier] flatten_fix_identifier [of t U L tm]
  by (auto simp: fix_listed_def)

lemma flatten_recurse_token: "flatten (recurse_token U L tm t) = flatten t"
proof (induction U L tm t rule: recurse_token.induct)
  case (1 U L tm ty v)
  show ?case by simp
next
  case (2 U L tm c v ts)
  show ?case
  proof (cases "c = Identifier")
    case True
    then show ?thesis by (simp add: flatten_fix_identifier)
  next
    case notid: False
    show ?thesis
    proof (cases "c = IdentifierList")
      case True
      with notid show ?thesis by (simp add: comp_def flatten_fix_listed)
    next
      case False
      with notid 2 have "\<forall>x \<in> set ts. flatten (recurse_token U L tm x) = flatten x"
        by simp
      then have eq: "map (\<lambda>x. flatten (recurse_token U L tm x)) ts = map flatten ts"
        by (simp cong: map_cong)
      from notid False show ?thesis by (simp add: comp_def eq)
    qed
  qed
qed

lemma str_tokens_recurse: "str_tokens (recurse U L tm ts) = str_tokens ts"
  by (simp add: str_tokens_def recurse_def comp_def flatten_recurse_token)

lemma normalize_table_names_eq:
  "normalize_table_names U L sql schema =
     (if schema = [] then sql
      else (case parse L sql of [] \<Rightarrow> sql | stmt # rest \<Rightarrow> str_stmt stmt))"
  by (simp add: normalize_table_names_def str_tokens_recurse str_stmt_def Let_def
      split: list.splits)

section \<open>Facts about the ResponseRepair\<close>






lemma parse_llm_response_eq:
  "parse_llm_response json_loads content =
     (case json_loads content of
        Inr v \<Rightarrow> ([], Inr v)
      | Inl e0 \<Rightarrow>
          (case json_loads (repaired_fragment content) of
             Inr v \<Rightarrow> ([], Inr v)
           | Inl e \<Rightarrow> ([St_warning invalid_json_warning, St_text content], Inl e)))"
  by (simp add: parse_llm_response_def repaired_fragment_def Let_def split: sum.splits)

section \<open>Facts about the chart specification\<close>

lemma map_of_filter_other:
  "k \<noteq> k0 \<Longrightarrow> map_of (filter (\<lambda>kv. fst kv \<noteq> k0) kvs) k = map_of kvs k"
  by (induction kvs) auto

lemma filter_keys_without: "k0 \<notin> set (map fst (filter (\<lambda>kv. fst kv \<noteq> k0) kvs))"
  by (induction kvs) auto

lemma filter_keys_absent:
  "k0 \<notin> set (map fst kvs) \<Longrightarrow> filter (\<lambda>kv. fst kv \<noteq> k0) kvs = kvs"
  by (induction kvs) auto

lemma chart_to_renderer_dict:
  assumes "truthy chart_spec" and "decoded_spec json_loads chart_spec = Inr (PyDict kvs)"
  shows "chart_to_renderer json_loads chart_spec
         = Handed (PyDict (filter (\<lambda>kv. fst kv \<noteq> py ''data'') kvs))"
proof (cases "py ''data'' \<in> set (map fst kvs)")
  case True
  with assms show ?thesis by (simp add: chart_to_renderer_def)
next
  case False
  then have "filter (\<lambda>kv. fst kv \<noteq> py ''data'') kvs = kvs" by (rule filter_keys_absent)
  with False assms show ?thesis by (simp add: chart_to_renderer_def)
qed

lemma chart_to_renderer_handed:
  assumes "chart_to_renderer json_loads chart_spec = Handed r"
  shows "\<exists>spec. decoded_spec json_loads chart_spec = Inr spec
           \<and> (case spec of
                 PyDict kvs \<Rightarrow> r = PyDict (filter (\<lambda>kv. fst kv \<noteq> py ''data'') kvs)
               | _ \<Rightarrow> r = spec)"
proof -
  from assms have t: "truthy chart_spec"
    by (auto simp: chart_to_renderer_def split: if_splits)
  from assms obtain spec where d: "decoded_spec json_loads chart_spec = Inr spec"
    by (cases "decoded_spec json_loads chart_spec")
       (auto simp: chart_to_renderer_def split: if_splits)
  show ?thesis
  proof (cases spec)
    case (PyDict kvs)
    with t d have "chart_to_renderer json_loads chart_spec
         = Handed (PyDict (filter (\<lambda>kv. fst kv \<noteq> py ''data'') kvs))"
      by (simp add: chart_to_renderer_dict)
    with assms PyDict d show ?thesis by simp
  next
    case PyNone
    with assms t d show ?thesis by (simp add: chart_to_renderer_def)
  next
    case (PyBool b)
    with assms t d show ?thesis by (simp add: chart_to_renderer_def)
  next
    case (PyInt i)
    with assms t d show ?thesis by (simp add: chart_to_renderer_def)
  next
    case (PyFloat f)
    with assms t d show ?thesis by (simp add: chart_to_renderer_def)
  next
    case (PyStr s)
    with assms t d show ?thesis
      by (auto simp: chart_to_renderer_def split: if_splits bool.splits)
  next
    case (PyList xs)
    with assms t d show ?thesis
      by (auto simp: chart_to_renderer_def split: if_splits bool.splits)
  qed
qed

lemmas json_defs =
  repaired_fragment_def extract_fragment_def str_find_def str_rfind_def slice_def
  clamp_index_def replace_quotes_def reply_with_prose_def reply_repaired_def
  reply_with_comments_def reply_without_comments_def reply_fragment_def reply_with_nbsp_def


lemma repaired_not_json: "repaired_fragment (py ''not json at all'') = []"
  by (simp add: json_defs text_defs Let_def)

section \<open>Claims\<close>

text \<open>
  C7. If the upper-cased text of \<open>sql\<close> contains \<open>" LIMIT "\<close>, \<open>" FETCH "\<close> or
  \<open>" TOP "\<close> as a literal substring, \<open>add_limit\<close> returns \<open>sql\<close> unchanged; otherwise it
  returns \<open>sql\<close> without its trailing white space, followed by \<open>" LIMIT "\<close> and the decimal
  text of \<open>max_rows\<close>. In particular \<open>add_limit("SELECT * FROM t", 200)\<close> is
  \<open>"SELECT * FROM t LIMIT 200"\<close>, and \<open>add_limit\<close> is idempotent for every \<open>sql\<close> and
  every \<open>n\<close>. The decimal text of a number from 0 on is a non-empty text of digits that
  reads back as the number and starts with the digit 0 only when it is \<open>"0"\<close>; that of a
  negative number is a minus sign before the text of its absolute value.
\<close>

theorem add_limit_spec:
  "add_limit U sql n =
     (if contains (py '' LIMIT '') (upper U sql) \<or> contains (py '' FETCH '') (upper U sql)
         \<or> contains (py '' TOP '') (upper U sql)
      then sql else rstrip sql @ py '' LIMIT '' @ str_int n)
   \<and> add_limit U (py ''SELECT * FROM t'') 200 = py ''SELECT * FROM t LIMIT 200''
   \<and> add_limit U (add_limit U sql n) n = add_limit U sql n
   \<and> (0 \<le> n \<longrightarrow>
        str_int n \<noteq> [] \<and> list_all is_digit (str_int n) \<and> int (dec_value (str_int n)) = n
        \<and> (hd (str_int n) = 48 \<longrightarrow> str_int n = py ''0''))
   \<and> (n < 0 \<longrightarrow> str_int n = 45 # str_int (- n))"
proof (intro conjI impI)
  show "add_limit U sql n =
     (if contains (py '' LIMIT '') (upper U sql) \<or> contains (py '' FETCH '') (upper U sql)
         \<or> contains (py '' TOP '') (upper U sql)
      then sql else rstrip sql @ py '' LIMIT '' @ str_int n)"
    by (simp add: add_limit_def Let_def)
next
  show "add_limit U (py ''SELECT * FROM t'') 200 = py ''SELECT * FROM t LIMIT 200''"
    by (simp add: add_limit_def Let_def text_defs str_int_200 [unfolded py_def, simplified])
next
  show "add_limit U (add_limit U sql n) n = add_limit U sql n"
  proof (cases "contains (py '' LIMIT '') (upper U sql) \<or> contains (py '' FETCH '') (upper U sql)
                 \<or> contains (py '' TOP '') (upper U sql)")
    case True
    then show ?thesis by (simp add: add_limit_def Let_def)
  next
    case False
    then have eq: "add_limit U sql n = rstrip sql @ py '' LIMIT '' @ str_int n"
      by (simp add: add_limit_def Let_def)
    have "contains (py '' LIMIT '') (upper U (add_limit U sql n))"
      unfolding eq by (rule add_limit_has_limit)
    then show ?thesis by (simp add: add_limit_def Let_def)
  qed
next
  assume "0 \<le> n"
  then show "str_int n \<noteq> []"
    by (simp add: str_int_def str_nat_not_empty)
next
  assume "0 \<le> n"
  then show "list_all is_digit (str_int n)"
    by (simp add: str_int_def str_nat_digits)
next
  assume "0 \<le> n"
  then show "int (dec_value (str_int n)) = n"
    by (simp add: str_int_def str_nat_value)
next
  assume "0 \<le> n" and "hd (str_int n) = 48"
  then show "str_int n = py ''0''"
    using str_nat_leading [of "nat n"] by (simp add: str_int_def py_def)
next
  assume "n < 0"
  then show "str_int n = 45 # str_int (- n)"
    by (simp add: str_int_def)
qed

theorem add_limit_spec_witness:
  "(0::int) \<le> 200
   \<and> str_int 200 = py ''200''
   \<and> list_all is_digit (str_int 200)
   \<and> int (dec_value (str_int 200)) = 200
   \<and> (- 5 :: int) < 0
   \<and> str_int (- 5) = py ''-5''
   \<and> add_limit unicode_recorded (py ''SELECT * FROM t'') (- 5) = py ''SELECT * FROM t LIMIT -5''"
proof -
  have a: "list_all is_digit (str_int 200) \<and> int (dec_value (str_int 200)) = 200"
    using add_limit_spec [of unicode_recorded "py ''SELECT * FROM t''" 200] by simp
  have five: "str_int 5 = py ''5''"
    by (simp add: str_int_def str_nat.simps [of 5] digit_char_def py_def)
  have b: "str_int (- 5) = 45 # str_int (- (- 5))"
    using add_limit_spec [of unicode_recorded "py ''SELECT * FROM t''" "- 5"] by simp
  with five have c: "str_int (- 5) = py ''-5''"
    by (simp add: py_def)
  have "add_limit unicode_recorded (py ''SELECT * FROM t'') (- 5)
        = (if contains (py '' LIMIT '') (upper unicode_recorded (py ''SELECT * FROM t''))
              \<or> contains (py '' FETCH '') (upper unicode_recorded (py ''SELECT * FROM t''))
              \<or> contains (py '' TOP '') (upper unicode_recorded (py ''SELECT * FROM t''))
           then py ''SELECT * FROM t''
           else rstrip (py ''SELECT * FROM t'') @ py '' LIMIT '' @ str_int (- 5))"
    using add_limit_spec [of unicode_recorded "py ''SELECT * FROM t''" "- 5"] by blast
  then have d: "add_limit unicode_recorded (py ''SELECT * FROM t'') (- 5)
        = py ''SELECT * FROM t LIMIT -5''"
    by (simp add: c text_defs)
  from a c d str_int_200 show ?thesis by simp
qed

text \<open>
  C1. The claim: \<open>is_select_only\<close> returns false for every SQL string that holds a token
  whose upper-cased text is a forbidden keyword, also after a semicolon, as in
  \<open>"SELECT * FROM t; DROP TABLE t"\<close>. The code scans the first statement only. On this
  text the library returns two statements, the token \<open>DROP\<close> is in the second, and
  \<open>is_select_only\<close> returns true.
\<close>

theorem is_select_only_select_then_drop:
  "parse sqlparse_recorded (py ''SELECT * FROM t; DROP TABLE t'') = parsed_select_then_drop
   \<and> Token T_DDL (py ''DROP'') \<in> set (flatten_stmt (parsed_select_then_drop ! 1))
   \<and> upper U (tok_value (Token T_DDL (py ''DROP''))) \<in> set forbidden
   \<and> is_select_only U sqlparse_recorded (py ''SELECT * FROM t; DROP TABLE t'')"
  by (simp add: sql_defs text_defs)

text \<open>
  C2. Let \<open>sql\<close> parse into at least one statement, and let no token of any of its
  statements be a forbidden keyword once upper-cased. Then \<open>is_select_only\<close> returns true
  exactly when \<open>sql\<close>, stripped of white space and upper-cased, begins with \<open>SELECT\<close> or
  \<open>WITH\<close>; the white space at the end does not matter, as the Unicode database gives
  white space no case mapping, so it returns true when \<open>sql\<close> begins with \<open>SELECT\<close> or
  \<open>WITH\<close> once its leading white space is dropped and its letters are upper-cased. So it
  does on \<open>"SELECT * FROM t"\<close> and on \<open>"   select 1"\<close>. If \<open>sql\<close> parses into no
  statement, \<open>is_select_only\<close> returns false.
\<close>

theorem is_select_only_accepts:
  "(parse L sql \<noteq> []
      \<and> (\<forall>stmt \<in> set (parse L sql). \<forall>t \<in> set (flatten_stmt stmt).
            upper U (tok_value t) \<notin> set forbidden)
      \<longrightarrow> (is_select_only U L sql \<longleftrightarrow>
             startswith (upper U (strip sql)) (py ''SELECT'')
             \<or> startswith (upper U (strip sql)) (py ''WITH'')))
   \<and> ((\<forall>c. isspace c \<longrightarrow> upper_char U c = [c])
      \<and> parse L sql \<noteq> []
      \<and> (startswith (upper U (lstrip sql)) (py ''SELECT'')
          \<or> startswith (upper U (lstrip sql)) (py ''WITH''))
      \<and> (\<forall>stmt \<in> set (parse L sql). \<forall>t \<in> set (flatten_stmt stmt).
            upper U (tok_value t) \<notin> set forbidden)
      \<longrightarrow> is_select_only U L sql)
   \<and> is_select_only U sqlparse_recorded (py ''SELECT * FROM t'')
   \<and> is_select_only U sqlparse_recorded (py ''   select 1'')
   \<and> (parse L sql = [] \<longrightarrow> \<not> is_select_only U L sql)"
proof (intro conjI impI)
  assume h: "parse L sql \<noteq> []
      \<and> (\<forall>stmt \<in> set (parse L sql). \<forall>t \<in> set (flatten_stmt stmt).
            upper U (tok_value t) \<notin> set forbidden)"
  then obtain stmt rest where ps: "parse L sql = stmt # rest"
    by (cases "parse L sql") auto
  with h have "\<forall>t \<in> set (flatten_stmt stmt). upper U (tok_value t) \<notin> set forbidden"
    by simp
  with ps show "is_select_only U L sql \<longleftrightarrow>
             startswith (upper U (strip sql)) (py ''SELECT'')
             \<or> startswith (upper U (strip sql)) (py ''WITH'')"
    by (rule is_select_only_clean)
next
  assume h: "(\<forall>c. isspace c \<longrightarrow> upper_char U c = [c])
      \<and> parse L sql \<noteq> []
      \<and> (startswith (upper U (lstrip sql)) (py ''SELECT'')
          \<or> startswith (upper U (lstrip sql)) (py ''WITH''))
      \<and> (\<forall>stmt \<in> set (parse L sql). \<forall>t \<in> set (flatten_stmt stmt).
            upper U (tok_value t) \<notin> set forbidden)"
  then obtain stmt rest where ps: "parse L sql = stmt # rest"
    by (cases "parse L sql") auto
  with h have clean: "\<forall>t \<in> set (flatten_stmt stmt). upper U (tok_value t) \<notin> set forbidden"
    by simp
  from h have uncased: "\<forall>c. isspace c \<longrightarrow> upper_char U c = [c]"
    by blast
  from h have "startswith (upper U (strip sql)) (py ''SELECT'')
               \<or> startswith (upper U (strip sql)) (py ''WITH'')"
    by (simp add: startswith_upper_strip [OF uncased select_no_blank]
        startswith_upper_strip [OF uncased with_no_blank])
  with ps clean show "is_select_only U L sql"
    by (simp add: is_select_only_clean)
next
  show "is_select_only U sqlparse_recorded (py ''SELECT * FROM t'')"
    by (simp add: sql_defs text_defs)
next
  show "is_select_only U sqlparse_recorded (py ''   select 1'')"
    by (simp add: sql_defs text_defs)
next
  assume "parse L sql = []"
  then show "\<not> is_select_only U L sql"
    by (simp add: is_select_only_def)
qed

theorem is_select_only_accepts_witness:
  "list_all (\<lambda>c. upper_char unicode_recorded c = [c]) whitespace
   \<and> parse sqlparse_recorded (py ''   select 1'') \<noteq> []
   \<and> startswith (upper unicode_recorded (lstrip (py ''   select 1''))) (py ''SELECT'')
   \<and> filter (\<lambda>t. upper unicode_recorded (tok_value t) \<in> set forbidden)
        (concat (map flatten_stmt (parse sqlparse_recorded (py ''   select 1'')))) = []
   \<and> is_select_only unicode_recorded sqlparse_recorded (py ''   select 1'')
   \<and> startswith (upper unicode_recorded (strip (py ''   select 1''))) (py ''SELECT'')
   \<and> parse sqlparse_recorded [] = []
   \<and> \<not> is_select_only unicode_recorded sqlparse_recorded []"
proof -
  have u: "list_all (\<lambda>c. upper_char unicode_recorded c = [c]) whitespace"
    by (simp add: unicode_recorded_def text_defs)
  then have u': "\<forall>c. isspace c \<longrightarrow> upper_char unicode_recorded c = [c]"
    by (simp add: blanks_uncased_iff)
  have a: "parse sqlparse_recorded (py ''   select 1'') \<noteq> []"
    by (simp add: sql_defs text_defs)
  have b: "startswith (upper unicode_recorded (lstrip (py ''   select 1''))) (py ''SELECT'')"
    by (simp add: text_defs)
  have c: "filter (\<lambda>t. upper unicode_recorded (tok_value t) \<in> set forbidden)
        (concat (map flatten_stmt (parse sqlparse_recorded (py ''   select 1'')))) = []"
    by (simp add: sql_defs text_defs)
  then have c': "\<forall>stmt \<in> set (parse sqlparse_recorded (py ''   select 1'')).
                  \<forall>t \<in> set (flatten_stmt stmt).
                    upper unicode_recorded (tok_value t) \<notin> set forbidden"
    by (auto simp: filter_empty_conv)
  have d: "parse sqlparse_recorded [] = []"
    by (simp add: sql_defs text_defs)
  from u' a b c' have e: "is_select_only unicode_recorded sqlparse_recorded (py ''   select 1'')"
    using is_select_only_accepts [of sqlparse_recorded "py ''   select 1''" unicode_recorded]
    by blast
  with a c' have f: "startswith (upper unicode_recorded (strip (py ''   select 1''))) (py ''SELECT'')
                     \<or> startswith (upper unicode_recorded (strip (py ''   select 1''))) (py ''WITH'')"
    using is_select_only_accepts [of sqlparse_recorded "py ''   select 1''" unicode_recorded]
    by blast
  have "\<not> startswith (upper unicode_recorded (strip (py ''   select 1''))) (py ''WITH'')"
    by (simp add: text_defs)
  with f have g: "startswith (upper unicode_recorded (strip (py ''   select 1''))) (py ''SELECT'')"
    by blast
  from d have h: "\<not> is_select_only unicode_recorded sqlparse_recorded []"
    using is_select_only_accepts [of sqlparse_recorded "[]" unicode_recorded] by blast
  from u a b c e g d h show ?thesis by blast
qed

text \<open>
  C3. The claim: with the schema \<open>{"Employees": ["id", "name"]}\<close>,
  \<open>normalize_table_names("SELECT * FROM employees e", schema)\<close> yields a statement that
  refers to \<open>Employees AS e\<close>. The walk does assign \<open>"Employees AS e"\<close> to the attribute
  \<open>value\<close> of the identifier node, but the returned text is joined from the leaves, which
  the walk leaves alone: the function returns the input text.
\<close>

theorem normalize_table_names_employees:
  "recurse U sqlparse_recorded (table_map U [(py ''Employees'', [py ''id'', py ''name''])])
       (stmt_tokens (hd (parse sqlparse_recorded (py ''SELECT * FROM employees e''))))
     = [Token T_DML (py ''SELECT''), ws, Token T_Wildcard (py ''*''), ws,
        Token T_Keyword (py ''FROM''), ws,
        TokenList Identifier (py ''Employees AS e'')
          [Token T_Name (py ''employees''), ws,
           TokenList Identifier (py ''e'') [Token T_Name (py ''e'')]]]
   \<and> normalize_table_names U sqlparse_recorded (py ''SELECT * FROM employees e'')
         [(py ''Employees'', [py ''id'', py ''name''])]
       = py ''SELECT * FROM employees e''
   \<and> \<not> contains (py ''Employees'') (normalize_table_names U sqlparse_recorded
         (py ''SELECT * FROM employees e'') [(py ''Employees'', [py ''id'', py ''name''])])"
  by code_simp

text \<open>
  C8. With the empty schema, \<open>normalize_table_names\<close> returns \<open>sql\<close> unchanged, for every
  \<open>sql\<close> and whatever the library answers.
\<close>

theorem normalize_table_names_empty_schema:
  "normalize_table_names U L sql [] = sql"
  by (simp add: normalize_table_names_def)

text \<open>
  C10, as stated: for every input that parses into two or more statements,
  \<open>normalize_table_names\<close> returns the text of the first statement only. With the empty
  schema the function returns the whole input before it parses anything.
\<close>

theorem normalize_table_names_two_statements_empty_schema:
  "2 \<le> length (parse sqlparse_recorded (py ''SELECT * FROM t; DROP TABLE t''))
   \<and> normalize_table_names unicode_recorded sqlparse_recorded
         (py ''SELECT * FROM t; DROP TABLE t'') []
       \<noteq> str_stmt (hd (parse sqlparse_recorded (py ''SELECT * FROM t; DROP TABLE t'')))"
  by code_simp

text \<open>
  C10, amended: when the schema is not empty, for every input that parses into two or more
  statements \<open>normalize_table_names\<close> returns the text of the first statement after the
  walk, which is the text of the first statement as parsed, and nothing of the others; for
  every input that parses into no statement it returns the input unchanged.
\<close>

theorem normalize_table_names_first_statement:
  "(schema \<noteq> [] \<and> 2 \<le> length (parse L sql) \<longrightarrow>
      normalize_table_names U L sql schema
        = str_tokens (recurse U L (table_map U schema) (stmt_tokens (hd (parse L sql))))
      \<and> normalize_table_names U L sql schema = str_stmt (hd (parse L sql)))
   \<and> (parse L sql = [] \<longrightarrow> normalize_table_names U L sql schema = sql)"
proof (intro conjI impI)
  assume h: "schema \<noteq> [] \<and> 2 \<le> length (parse L sql)"
  then obtain stmt rest where ps: "parse L sql = stmt # rest"
    by (cases "parse L sql") auto
  with h show "normalize_table_names U L sql schema
        = str_tokens (recurse U L (table_map U schema) (stmt_tokens (hd (parse L sql))))"
    by (simp add: normalize_table_names_def)
  from ps h show "normalize_table_names U L sql schema = str_stmt (hd (parse L sql))"
    by (simp add: normalize_table_names_eq)
next
  assume "parse L sql = []"
  then show "normalize_table_names U L sql schema = sql"
    by (simp add: normalize_table_names_eq)
qed

theorem normalize_table_names_first_statement_witness:
  "[(py ''Employees'', [py ''id'', py ''name''])] \<noteq> ([] :: schema)
   \<and> 2 \<le> length (parse sqlparse_recorded (py ''SELECT * FROM t; DROP TABLE t''))
   \<and> normalize_table_names unicode_recorded sqlparse_recorded
        (py ''SELECT * FROM t; DROP TABLE t'')
        [(py ''Employees'', [py ''id'', py ''name''])] = py ''SELECT * FROM t; ''
   \<and> parse sqlparse_recorded [] = []
   \<and> normalize_table_names unicode_recorded sqlparse_recorded []
        [(py ''Employees'', [py ''id'', py ''name''])] = []"
proof -
  have a: "[(py ''Employees'', [py ''id'', py ''name''])] \<noteq> ([] :: schema)"
    by simp
  have b: "2 \<le> length (parse sqlparse_recorded (py ''SELECT * FROM t; DROP TABLE t''))"
    by code_simp
  have c: "str_stmt (hd (parse sqlparse_recorded (py ''SELECT * FROM t; DROP TABLE t'')))
           = py ''SELECT * FROM t; ''"
    by code_simp
  have d: "parse sqlparse_recorded [] = []"
    by code_simp
  from a b have "normalize_table_names unicode_recorded sqlparse_recorded
        (py ''SELECT * FROM t; DROP TABLE t'')
        [(py ''Employees'', [py ''id'', py ''name''])]
      = str_stmt (hd (parse sqlparse_recorded (py ''SELECT * FROM t; DROP TABLE t'')))"
    using normalize_table_names_first_statement
      [of "[(py ''Employees'', [py ''id'', py ''name''])]" sqlparse_recorded
          "py ''SELECT * FROM t; DROP TABLE t''" unicode_recorded]
    by blast
  with c have e: "normalize_table_names unicode_recorded sqlparse_recorded
        (py ''SELECT * FROM t; DROP TABLE t'')
        [(py ''Employees'', [py ''id'', py ''name''])] = py ''SELECT * FROM t; ''"
    by simp
  from d have f: "normalize_table_names unicode_recorded sqlparse_recorded []
        [(py ''Employees'', [py ''id'', py ''name''])] = []"
    using normalize_table_names_first_statement
      [of "[(py ''Employees'', [py ''id'', py ''name''])]" sqlparse_recorded "[]"
          unicode_recorded]
    by blast
  from a b e d f show ?thesis by blast
qed



text \<open>
  C5, as stated: when both decodes fail, the original raw text is surfaced. The first line
  of the block strips the reply, and what is written to the page is the stripped text: on
  the reply \<open>" not json at all"\<close> with a newline at its end both decodes fail, on the reply
  and on its stripped text alike, and the page shows \<open>"not json at all"\<close>, not the reply.
\<close>

theorem ask_llm_reply_shows_stripped_text:
  "json_recorded (py '' not json at all'' @ [newline]) = Inl JSONDecodeError
   \<and> json_recorded (repaired_fragment (py '' not json at all'' @ [newline]))
       = Inl JSONDecodeError
   \<and> json_recorded (strip (py '' not json at all'' @ [newline])) = Inl JSONDecodeError
   \<and> json_recorded (repaired_fragment (strip (py '' not json at all'' @ [newline])))
       = Inl JSONDecodeError
   \<and> ask_llm_reply json_recorded (py '' not json at all'' @ [newline])
       = ([St_warning invalid_json_warning, St_text (py ''not json at all'')],
          Inl JSONDecodeError)
   \<and> St_text (py '' not json at all'' @ [newline])
       \<notin> set (fst (ask_llm_reply json_recorded (py '' not json at all'' @ [newline])))"
  by (simp add: ask_llm_reply_def parse_llm_response_eq json_recorded_def json_defs text_defs
      Let_def)

text \<open>
  C5, amended: when the strict decode of the stripped reply fails and the decode of its
  repaired fragment fails too, the block raises the exception of the second decode, after
  it has written the warning and then the stripped reply, the text that both decodes
  started from, to the page. On \<open>"not json at all"\<close> there is nothing to strip and no
  brace, the fragment is empty, and a decoder that rejects this text and the empty text
  makes the block fail in this way.
\<close>

theorem ask_llm_reply_malformed:
  "(json_loads (strip reply) = Inl e0 \<and> json_loads (repaired_fragment (strip reply)) = Inl e
      \<longrightarrow> ask_llm_reply json_loads reply
            = ([St_warning invalid_json_warning, St_text (strip reply)], Inl e))
   \<and> (json_loads content = Inl e0 \<and> json_loads (repaired_fragment content) = Inl e
      \<longrightarrow> parse_llm_response json_loads content
            = ([St_warning invalid_json_warning, St_text content], Inl e))
   \<and> strip (py ''not json at all'') = py ''not json at all''
   \<and> repaired_fragment (py ''not json at all'') = []
   \<and> (json_loads (py ''not json at all'') = Inl e0 \<and> json_loads [] = Inl e \<longrightarrow>
        ask_llm_reply json_loads (py ''not json at all'')
          = ([St_warning invalid_json_warning, St_text (py ''not json at all'')], Inl e))"
proof (intro conjI impI)
  assume "json_loads (strip reply) = Inl e0
          \<and> json_loads (repaired_fragment (strip reply)) = Inl e"
  then show "ask_llm_reply json_loads reply
        = ([St_warning invalid_json_warning, St_text (strip reply)], Inl e)"
    by (simp add: ask_llm_reply_def parse_llm_response_eq)
next
  assume "json_loads content = Inl e0 \<and> json_loads (repaired_fragment content) = Inl e"
  then show "parse_llm_response json_loads content
        = ([St_warning invalid_json_warning, St_text content], Inl e)"
    by (simp add: parse_llm_response_eq)
next
  show s: "strip (py ''not json at all'') = py ''not json at all''"
    by (simp add: text_defs)
  show "repaired_fragment (py ''not json at all'') = []"
    by (rule repaired_not_json)
  assume "json_loads (py ''not json at all'') = Inl e0 \<and> json_loads [] = Inl e"
  then show "ask_llm_reply json_loads (py ''not json at all'')
          = ([St_warning invalid_json_warning, St_text (py ''not json at all'')], Inl e)"
    by (simp add: ask_llm_reply_def parse_llm_response_eq s repaired_not_json)
qed

theorem ask_llm_reply_malformed_witness:
  "json_recorded (strip (py '' not json at all'' @ [newline])) = Inl JSONDecodeError
   \<and> json_recorded (repaired_fragment (strip (py '' not json at all'' @ [newline])))
       = Inl JSONDecodeError
   \<and> strip (py '' not json at all'' @ [newline]) = py ''not json at all''
   \<and> ask_llm_reply json_recorded (py '' not json at all'' @ [newline])
       = ([St_warning invalid_json_warning, St_text (py ''not json at all'')],
          Inl JSONDecodeError)"
proof -
  have s: "strip (py '' not json at all'' @ [newline]) = py ''not json at all''"
    by (simp add: text_defs)
  have "json_recorded (py ''not json at all'') = Inl JSONDecodeError"
    by (simp add: json_recorded_def json_defs py_def)
  then have a: "json_recorded (strip (py '' not json at all'' @ [newline]))
                = Inl JSONDecodeError"
    by (simp only: s)
  have "json_recorded [] = Inl JSONDecodeError"
    by (simp add: json_recorded_def json_defs py_def)
  then have b: "json_recorded (repaired_fragment (strip (py '' not json at all'' @ [newline])))
       = Inl JSONDecodeError"
    by (simp only: s repaired_not_json)
  from a b have "ask_llm_reply json_recorded (py '' not json at all'' @ [newline])
       = ([St_warning invalid_json_warning,
           St_text (strip (py '' not json at all'' @ [newline]))], Inl JSONDecodeError)"
    using ask_llm_reply_malformed
      [of json_recorded "py '' not json at all'' @ [newline]" JSONDecodeError JSONDecodeError]
    by blast
  with s a b show ?thesis by simp
qed

text \<open>
  C9. When the chart specification is truthy and is, or decodes to, a dictionary, the
  renderer receives that dictionary without its key \<open>data\<close>: the other items keep their
  order and their values. Whatever the renderer receives is the decoded specification,
  changed in this way when it is a dictionary and not at all otherwise.
\<close>

theorem chart_to_renderer_strips_data:
  "(truthy chart_spec \<and> decoded_spec json_loads chart_spec = Inr (PyDict kvs) \<longrightarrow>
      (\<exists>kvs'. chart_to_renderer json_loads chart_spec = Handed (PyDict kvs')
         \<and> kvs' = filter (\<lambda>kv. fst kv \<noteq> py ''data'') kvs
         \<and> py ''data'' \<notin> set (map fst kvs')
         \<and> (\<forall>k. k \<noteq> py ''data'' \<longrightarrow> map_of kvs' k = map_of kvs k)))
   \<and> (chart_to_renderer json_loads chart_spec = Handed r \<longrightarrow>
        (\<exists>spec. decoded_spec json_loads chart_spec = Inr spec
           \<and> (case spec of
                 PyDict kvs \<Rightarrow> r = PyDict (filter (\<lambda>kv. fst kv \<noteq> py ''data'') kvs)
               | _ \<Rightarrow> r = spec)))"
proof (intro conjI impI)
  assume "truthy chart_spec \<and> decoded_spec json_loads chart_spec = Inr (PyDict kvs)"
  then have "chart_to_renderer json_loads chart_spec
             = Handed (PyDict (filter (\<lambda>kv. fst kv \<noteq> py ''data'') kvs))"
    by (simp add: chart_to_renderer_dict)
  then show "\<exists>kvs'. chart_to_renderer json_loads chart_spec = Handed (PyDict kvs')
         \<and> kvs' = filter (\<lambda>kv. fst kv \<noteq> py ''data'') kvs
         \<and> py ''data'' \<notin> set (map fst kvs')
         \<and> (\<forall>k. k \<noteq> py ''data'' \<longrightarrow> map_of kvs' k = map_of kvs k)"
    using filter_keys_without [of "py ''data''" kvs] map_of_filter_other [of _ "py ''data''" kvs]
    by blast
next
  assume "chart_to_renderer json_loads chart_spec = Handed r"
  then show "\<exists>spec. decoded_spec json_loads chart_spec = Inr spec
           \<and> (case spec of
                 PyDict kvs \<Rightarrow> r = PyDict (filter (\<lambda>kv. fst kv \<noteq> py ''data'') kvs)
               | _ \<Rightarrow> r = spec)"
    by (rule chart_to_renderer_handed)
qed

theorem chart_to_renderer_strips_data_witness:
  "truthy bar_chart_spec
   \<and> decoded_spec json_recorded bar_chart_spec = Inr bar_chart_spec
   \<and> chart_to_renderer json_recorded bar_chart_spec
       = Handed (PyDict [(py ''mark'', PyStr (py ''bar'')),
                         (py ''encoding'',
                          PyDict [(py ''x'', PyDict [(py ''field'', PyStr (py ''city''))])])])"
proof -
  have a: "truthy bar_chart_spec"
    by (simp add: bar_chart_spec_def bar_chart_items_def)
  have b: "decoded_spec json_recorded bar_chart_spec = Inr (PyDict bar_chart_items)"
    by (simp add: decoded_spec_def bar_chart_spec_def)
  have c: "filter (\<lambda>kv. fst kv \<noteq> py ''data'') bar_chart_items
           = [(py ''mark'', PyStr (py ''bar'')),
              (py ''encoding'',
               PyDict [(py ''x'', PyDict [(py ''field'', PyStr (py ''city''))])])]"
    by (simp add: bar_chart_items_def py_def)
  from a b have "\<exists>kvs'. chart_to_renderer json_recorded bar_chart_spec = Handed (PyDict kvs')
         \<and> kvs' = filter (\<lambda>kv. fst kv \<noteq> py ''data'') bar_chart_items"
    using chart_to_renderer_strips_data [of bar_chart_spec json_recorded bar_chart_items]
    by blast
  with c have d: "chart_to_renderer json_recorded bar_chart_spec
       = Handed (PyDict [(py ''mark'', PyStr (py ''bar'')),
                         (py ''encoding'',
                          PyDict [(py ''x'', PyDict [(py ''field'', PyStr (py ''city''))])])])"
    by simp
  from b have e: "decoded_spec json_recorded bar_chart_spec = Inr bar_chart_spec"
    by (simp add: bar_chart_spec_def)
  from a e d show ?thesis by blast
qed

end
